theory Spec2Isabelle
  imports Complex_Main
begin

section \<open>Data model\<close>

text \<open>
  The integrators of \<^verbatim>\<open>ipi/engine/ensembles.py\<close> act on numpy arrays of Python floats.
  Numbers are modelled as \<^typ>\<open>real\<close>: every statement below is about exact arithmetic,
  rounding is outside the model.  A two-dimensional array is a list of rows; \<^verbatim>\<open>beads.p\<close>
  and \<^verbatim>\<open>beads.q\<close> have one row per bead (replica) and three entries per atom in a row.
\<close>

type_synonym vec = "real list"
type_synonym arr = "real list list"

text \<open>
  Failures are values.  \<open>IndexError\<close>, \<open>ValueError\<close>, \<open>NameError\<close> and
  \<open>ZeroDivisionError\<close> are the Python exceptions of these names.  \<open>NonFinite\<close> stands for
  a floating-point division by zero inside numpy, which yields \<^verbatim>\<open>inf\<close> or \<^verbatim>\<open>nan\<close>; no real
  number models that result, so the model stops there.
\<close>

datatype error = IndexError | ValueError | NameError | ZeroDivisionError | NonFinite

text \<open>The static configuration of an ensemble (the arguments of \<^verbatim>\<open>__init__\<close>).\<close>

record ensemble =
  dt :: real
  temp :: real
  fixcom :: bool
  fixatoms :: "int list"
  mtsintegfactors :: "int list"

text \<open>
  The mutable state an ensemble works on: bead positions and momenta, the atom masses
  \<^verbatim>\<open>beads.m\<close>, the cell matrix \<^verbatim>\<open>cell.h\<close>, the ledger \<^verbatim>\<open>eens\<close>, the heat accumulators of the
  thermostat and the barostat, the time step \<^verbatim>\<open>nm.dt\<close> of the free ring-polymer propagator,
  and \<open>aux\<close>, whatever else the collaborators keep (random generator, barostat momentum).
\<close>

record 'x sim =
  beads_q :: arr
  beads_p :: arr
  beads_m :: vec
  cell_h :: arr
  eens :: real
  ethermo :: real
  ebaro :: real
  nm_dt :: real
  aux :: 'x

text \<open>
  The collaborators whose code is not part of the ensemble module are parameters: the force
  and bias evaluators (functions of positions and cell), the normal-mode transformation and
  the thermostat and barostat half-steps.
\<close>

record 'x collab =
  forces_f :: "arr \<Rightarrow> arr \<Rightarrow> arr"
  forces_mts :: "nat \<Rightarrow> arr \<Rightarrow> arr \<Rightarrow> arr"
  nmtslevels :: nat
  forces_pot :: "arr \<Rightarrow> arr \<Rightarrow> real"
  bias_f :: "arr \<Rightarrow> arr \<Rightarrow> arr"
  bias_pot :: "arr \<Rightarrow> arr \<Rightarrow> real"
  beads_vpath :: "arr \<Rightarrow> real"
  nm_omegan2 :: real
  nm_kin :: "arr \<Rightarrow> vec \<Rightarrow> real"
  nm_pnm0 :: "arr \<Rightarrow> vec"
  nm_qnm0_add :: "vec \<Rightarrow> arr \<Rightarrow> arr"
  nm_free_qstep :: "real \<Rightarrow> arr \<times> arr \<Rightarrow> arr \<times> arr"
  thermostat_step :: "'x sim \<Rightarrow> 'x sim"
  baro_thermostat_step :: "'x sim \<Rightarrow> 'x sim"
  baro_pstep :: "'x sim \<Rightarrow> 'x sim"
  baro_qcstep :: "'x sim \<Rightarrow> 'x sim"

definition natoms :: "'x sim \<Rightarrow> nat" where
  "natoms s = length (beads_m s)"

definition nbeads :: "'x sim \<Rightarrow> nat" where
  "nbeads s = length (beads_p s)"

section \<open>Conserved quantity\<close>

text \<open>\<^verbatim>\<open>Ensemble.get_econs\<close>, inherited unchanged by \<^verbatim>\<open>NVEEnsemble\<close>.\<close>

definition Ensemble_get_econs :: "'x collab \<Rightarrow> 'x sim \<Rightarrow> real" where
  "Ensemble_get_econs k s =
     (let eham = beads_vpath k (beads_q s) * nm_omegan2 k + nm_kin k (beads_p s) (beads_m s)
                 + forces_pot k (beads_q s) (cell_h s);
          eham = eham + bias_pot k (beads_q s) (cell_h s)
      in eham + eens s)"

definition NVE_get_econs :: "'x collab \<Rightarrow> 'x sim \<Rightarrow> real" where
  "NVE_get_econs = Ensemble_get_econs"

definition NVT_get_econs :: "'x collab \<Rightarrow> 'x sim \<Rightarrow> real" where
  "NVT_get_econs k s = NVE_get_econs k s + ethermo s"

definition NPT_get_econs :: "'x collab \<Rightarrow> 'x sim \<Rightarrow> real" where
  "NPT_get_econs k s = NVT_get_econs k s + ebaro s"

definition NST_get_econs :: "'x collab \<Rightarrow> 'x sim \<Rightarrow> real" where
  "NST_get_econs k s = NVT_get_econs k s + ebaro s"

definition MTS_get_econs :: "'x collab \<Rightarrow> 'x sim \<Rightarrow> real" where
  "MTS_get_econs k s = NVE_get_econs k s + ethermo s"


section \<open>Momentum constraints\<close>

definition ebind :: "error + 'a \<Rightarrow> ('a \<Rightarrow> error + 'b) \<Rightarrow> error + 'b" where
  "ebind x f = (case x of Inl e \<Rightarrow> Inl e | Inr y \<Rightarrow> f y)"

text \<open>
  Python indexing of a sequence of length \<open>n\<close>: a negative index counts from the end,
  anything outside \<open>-n \<le> i < n\<close> raises \<^verbatim>\<open>IndexError\<close>.
\<close>

definition py_index :: "nat \<Rightarrow> int \<Rightarrow> error + nat" where
  "py_index n i =
     (if 0 \<le> i \<and> i < int n then Inr (nat i)
      else if - int n \<le> i \<and> i < 0 then Inr (nat (int n + i))
      else Inl IndexError)"

text \<open>numpy indexing with an integer array: \<^verbatim>\<open>xs[idx]\<close> and \<^verbatim>\<open>xs[idx] = v\<close>.\<close>

fun gather :: "vec \<Rightarrow> int list \<Rightarrow> error + vec" where
  "gather xs [] = Inr []"
| "gather xs (i # is) =
     ebind (py_index (length xs) i) (\<lambda>j. ebind (gather xs is) (\<lambda>ys. Inr (xs ! j # ys)))"

fun scatter :: "vec \<Rightarrow> int list \<Rightarrow> real \<Rightarrow> error + vec" where
  "scatter xs [] v = Inr xs"
| "scatter xs (i # is) v = ebind (py_index (length xs) i) (\<lambda>j. scatter (xs[j := v]) is v)"

text \<open>\<^verbatim>\<open>np.dot(a, a/mm)\<close>; a zero mass makes the quotient non-finite.\<close>

definition dot_over :: "vec \<Rightarrow> vec \<Rightarrow> error + real" where
  "dot_over a mm = (if 0 \<in> set mm then Inl NonFinite
                    else Inr (\<Sum>(x, y) \<leftarrow> zip a mm. x * (x / y)))"

text \<open>
  Modelled from the spec: the class \<^verbatim>\<open>Beads\<close> is not part of the ensemble module.  Its
  \<^verbatim>\<open>m3\<close> holds, for every bead, each atom's mass three times (once per dimension), and
  \<^verbatim>\<open>beads[0].M\<close> is the total mass of the atoms.
\<close>

definition beads_m3_row :: "'x sim \<Rightarrow> vec" where
  "beads_m3_row s = concat (map (\<lambda>x. [x, x, x]) (beads_m s))"

definition beads_M :: "'x sim \<Rightarrow> real" where
  "beads_M s = sum_list (beads_m s)"

text \<open>\<^verbatim>\<open>p[:,i:na3:3].sum()\<close>: the sum of dimension \<open>i\<close> of all atoms of all beads.\<close>

definition stride_sum :: "nat \<Rightarrow> nat \<Rightarrow> arr \<Rightarrow> real" where
  "stride_sum na i pp = (\<Sum>bp \<leftarrow> pp. \<Sum>a \<leftarrow> [0..<na]. bp ! (3 * a + i))"

text \<open>\<^verbatim>\<open>self.beads.p[:,i:na3:3] -= m*v\<close> with \<open>m = m3[:,0:na3:3]\<close>, the masses of the atoms.\<close>

definition stride_sub :: "vec \<Rightarrow> nat \<Rightarrow> real \<Rightarrow> arr \<Rightarrow> arr" where
  "stride_sub ms i v pp =
     map (\<lambda>bp. map (\<lambda>j. if j < 3 * length ms \<and> j mod 3 = i
                          then bp ! j - ms ! (j div 3) * v else bp ! j) [0..<length bp]) pp"

text \<open>The branch \<^verbatim>\<open>if (self.fixcom)\<close> of \<^verbatim>\<open>NVEEnsemble.pconstraints\<close>.\<close>

definition com_stage :: "'x sim \<Rightarrow> error + 'x sim" where
  "com_stage s =
     (let na = natoms s; nb = nbeads s; pp = beads_p s; ms = beads_m s in
      if nb = 0 then Inl IndexError
      else
        let M = beads_M s;
            pcom = map (\<lambda>i. stride_sum na i pp) [0..<3]
        in if 2 * M * real nb = 0 then Inl NonFinite
           else
             let e = eens s + (\<Sum>x \<leftarrow> pcom. x * x) / (2 * M * real nb);
                 pcom = map (\<lambda>x. x * (1 / (real nb * M))) pcom
             in Inr (s\<lparr>eens := e,
                       beads_p := stride_sub ms 2 (pcom ! 2)
                                    (stride_sub ms 1 (pcom ! 1)
                                      (stride_sub ms 0 (pcom ! 0) pp))\<rparr>))"

text \<open>The body of \<^verbatim>\<open>for bp in self.beads.p\<close> in the branch \<^verbatim>\<open>if (len(self.fixatoms)>0)\<close>.\<close>

definition fix_row :: "int list \<Rightarrow> vec \<Rightarrow> real \<Rightarrow> vec \<Rightarrow> error + (real \<times> vec)" where
  "fix_row fx ms e bp =
     (let i0 = map (\<lambda>i. i * 3) fx; i1 = map (\<lambda>i. i * 3 + 1) fx; i2 = map (\<lambda>i. i * 3 + 2) fx in
      ebind (gather bp i0) (\<lambda>a0. ebind (gather ms fx) (\<lambda>mm. ebind (dot_over a0 mm) (\<lambda>d0.
      ebind (gather bp i1) (\<lambda>a1. ebind (dot_over a1 mm) (\<lambda>d1.
      ebind (gather bp i2) (\<lambda>a2. ebind (dot_over a2 mm) (\<lambda>d2.
      ebind (scatter bp i0 0) (\<lambda>bp0.
      ebind (scatter bp0 i1 0) (\<lambda>bp1.
      ebind (scatter bp1 i2 0) (\<lambda>bp2.
        Inr (e + 0.5 * d0 + 0.5 * d1 + 0.5 * d2, bp2))))))))))))"

fun fix_rows :: "int list \<Rightarrow> vec \<Rightarrow> real \<Rightarrow> arr \<Rightarrow> error + (real \<times> arr)" where
  "fix_rows fx ms e [] = Inr (e, [])"
| "fix_rows fx ms e (bp # rest) =
     ebind (fix_row fx ms e bp) (\<lambda>(e1, bp1).
       ebind (fix_rows fx ms e1 rest) (\<lambda>(e2, rest1). Inr (e2, bp1 # rest1)))"

definition fix_stage :: "ensemble \<Rightarrow> 'x sim \<Rightarrow> error + 'x sim" where
  "fix_stage c s =
     ebind (fix_rows (fixatoms c) (beads_m s) (eens s) (beads_p s))
       (\<lambda>(e, pp). Inr (s\<lparr>eens := e, beads_p := pp\<rparr>))"

text \<open>\<^verbatim>\<open>Ensemble.pconstraints\<close> is \<^verbatim>\<open>pass\<close>; \<^verbatim>\<open>NVEEnsemble.pconstraints\<close> overrides it.\<close>

definition Ensemble_pconstraints :: "ensemble \<Rightarrow> 'x sim \<Rightarrow> error + 'x sim" where
  "Ensemble_pconstraints c s = Inr s"

definition NVE_pconstraints :: "ensemble \<Rightarrow> 'x sim \<Rightarrow> error + 'x sim" where
  "NVE_pconstraints c s =
     ebind (if fixcom c then com_stage s else Inr s)
       (\<lambda>s1. if length (fixatoms c) > 0 then fix_stage c s1 else Inr s1)"

text \<open>
  \<^verbatim>\<open>Ensemble.bind\<close> stores the collaborators, declares dependencies and ends with
  \<^verbatim>\<open>self.pconstraints()\<close>, dispatched to the class of the ensemble being bound.
\<close>

definition Ensemble_bind ::
  "(ensemble \<Rightarrow> 'x sim \<Rightarrow> error + 'x sim) \<Rightarrow> ensemble \<Rightarrow> 'x sim \<Rightarrow> error + 'x sim" where
  "Ensemble_bind pconstraints c s = pconstraints c s"


section \<open>Propagators\<close>

text \<open>
  \<^verbatim>\<open>self.beads.p += f*hh\<close> for an array \<open>f\<close>.  The force arrays have the shape of
  \<^verbatim>\<open>beads.p\<close>; numpy raises \<^verbatim>\<open>ValueError\<close> for an operand of another shape.
\<close>

definition kick :: "real \<Rightarrow> arr \<Rightarrow> arr \<Rightarrow> error + arr" where
  "kick hh f pp =
     (if map length f = map length pp
      then Inr (map2 (\<lambda>bp bf. map2 (\<lambda>x y. x + y * hh) bp bf) pp f)
      else Inl ValueError)"

definition NVE_pstep :: "'x collab \<Rightarrow> ensemble \<Rightarrow> 'x sim \<Rightarrow> error + 'x sim" where
  "NVE_pstep k c s =
     ebind (kick (dt c * 0.5) (forces_f k (beads_q s) (cell_h s)) (beads_p s)) (\<lambda>p1.
     ebind (kick (dt c * 0.5) (bias_f k (beads_q s) (cell_h s)) p1) (\<lambda>p2.
       Inr (s\<lparr>beads_p := p2\<rparr>)))"

text \<open>
  \<^verbatim>\<open>self.nm.qnm[0,:] += depstrip(self.nm.pnm)[0,:]/depstrip(self.beads.m3)[0]*self.dt\<close>;
  the normal-mode transformation turns the increment of mode 0 into new bead positions.
\<close>

definition NVE_qcstep :: "'x collab \<Rightarrow> ensemble \<Rightarrow> 'x sim \<Rightarrow> error + 'x sim" where
  "NVE_qcstep k c s =
     (if nbeads s = 0 then Inl IndexError
      else if 0 \<in> set (beads_m s) then Inl NonFinite
      else Inr (s\<lparr>beads_q :=
             nm_qnm0_add k (map2 (\<lambda>pn mm. pn / mm * dt c) (nm_pnm0 k (beads_p s)) (beads_m3_row s))
               (beads_q s)\<rparr>))"

text \<open>\<^verbatim>\<open>MTSEnsemble.pstep(level, alpha)\<close> and \<^verbatim>\<open>MTSEnsemble.qcstep(alpha)\<close>.\<close>

definition MTS_pstep :: "'x collab \<Rightarrow> ensemble \<Rightarrow> nat \<Rightarrow> real \<Rightarrow> 'x sim \<Rightarrow> error + 'x sim" where
  "MTS_pstep k c level alpha s =
     (if alpha = 0 then Inl ZeroDivisionError
      else ebind (kick (dt c / alpha) (forces_mts k level (beads_q s) (cell_h s)) (beads_p s))
             (\<lambda>p1. Inr (s\<lparr>beads_p := p1\<rparr>)))"

definition MTS_qcstep :: "'x collab \<Rightarrow> ensemble \<Rightarrow> real \<Rightarrow> 'x sim \<Rightarrow> error + 'x sim" where
  "MTS_qcstep k c alpha s =
     (if nbeads s = 0 then Inl IndexError
      else if 0 \<in> set (beads_m s) \<or> alpha = 0 then Inl NonFinite
      else Inr (s\<lparr>beads_q :=
             nm_qnm0_add k
               (map2 (\<lambda>pn mm. pn / mm * dt c / alpha) (nm_pnm0 k (beads_p s)) (beads_m3_row s))
               (beads_q s)\<rparr>))"

text \<open>\<^verbatim>\<open>self.beads.p += depstrip(self.bias.f)*(self.dt*0.5)\<close> in \<^verbatim>\<open>MTSEnsemble.step\<close>.\<close>

definition bias_kick :: "'x collab \<Rightarrow> ensemble \<Rightarrow> 'x sim \<Rightarrow> error + 'x sim" where
  "bias_kick k c s =
     ebind (kick (dt c * 0.5) (bias_f k (beads_q s) (cell_h s)) (beads_p s))
       (\<lambda>p1. Inr (s\<lparr>beads_p := p1\<rparr>))"

text \<open>\<^verbatim>\<open>self.nm.free_qstep()\<close>, which propagates with the time step \<^verbatim>\<open>nm.dt\<close>.\<close>

definition free_qstep :: "'x collab \<Rightarrow> 'x sim \<Rightarrow> 'x sim" where
  "free_qstep k s =
     (let (q1, p1) = nm_free_qstep k (nm_dt s) (beads_q s, beads_p s)
      in s\<lparr>beads_q := q1, beads_p := p1\<rparr>)"

section \<open>Time steps\<close>

text \<open>
  The \<^verbatim>\<open>step\<close> methods of the integrating ensembles (NVE, NVT, NPT, NST, MTS) do not
  branch on the state: which calls a step makes, and in which order, is fixed by the
  configuration.  Such a step is therefore the list of the calls it makes, run in order on
  the state; an exception ends the run.
\<close>

datatype op =
    OpPstep
  | OpPconstraints
  | OpQcstep
  | OpFreeQstep
  | OpThermostat
  | OpBaroThermostat
  | OpBaroPstep
  | OpBaroQcstep
  | OpBiasKick
  | OpMTSPstep nat real
  | OpMTSQcstep real

fun exec_op :: "'x collab \<Rightarrow> ensemble \<Rightarrow> op \<Rightarrow> 'x sim \<Rightarrow> error + 'x sim" where
  "exec_op k c OpPstep s = NVE_pstep k c s"
| "exec_op k c OpPconstraints s = NVE_pconstraints c s"
| "exec_op k c OpQcstep s = NVE_qcstep k c s"
| "exec_op k c OpFreeQstep s = Inr (free_qstep k s)"
| "exec_op k c OpThermostat s = Inr (thermostat_step k s)"
| "exec_op k c OpBaroThermostat s = Inr (baro_thermostat_step k s)"
| "exec_op k c OpBaroPstep s = Inr (baro_pstep k s)"
| "exec_op k c OpBaroQcstep s = Inr (baro_qcstep k s)"
| "exec_op k c OpBiasKick s = bias_kick k c s"
| "exec_op k c (OpMTSPstep level alpha) s = MTS_pstep k c level alpha s"
| "exec_op k c (OpMTSQcstep alpha) s = MTS_qcstep k c alpha s"

fun run_ops :: "'x collab \<Rightarrow> ensemble \<Rightarrow> op list \<Rightarrow> 'x sim \<Rightarrow> error + 'x sim" where
  "run_ops k c [] s = Inr s"
| "run_ops k c (x # xs) s = ebind (exec_op k c x s) (run_ops k c xs)"

definition NVE_step_ops :: "op list" where
  "NVE_step_ops = [OpPstep, OpPconstraints, OpQcstep, OpFreeQstep, OpPstep, OpPconstraints]"

definition NVT_step_ops :: "op list" where
  "NVT_step_ops =
     [OpThermostat, OpPconstraints,
      OpPstep, OpPconstraints,
      OpQcstep, OpFreeQstep,
      OpPstep, OpPconstraints,
      OpThermostat, OpPconstraints]"

definition NPT_step_ops :: "op list" where
  "NPT_step_ops =
     [OpThermostat, OpBaroThermostat, OpPconstraints,
      OpBaroPstep, OpPconstraints,
      OpBaroQcstep, OpFreeQstep,
      OpBaroPstep, OpPconstraints,
      OpBaroThermostat, OpThermostat, OpPconstraints]"

definition NST_step_ops :: "op list" where
  "NST_step_ops =
     [OpThermostat, OpBaroThermostat, OpPconstraints,
      OpBaroPstep, OpPconstraints,
      OpBaroQcstep, OpFreeQstep,
      OpBaroPstep, OpPconstraints,
      OpBaroThermostat, OpThermostat, OpPconstraints]"

text \<open>
  \<^verbatim>\<open>MTSEnsemble.mtsprop(index, alpha)\<close> with \<open>facs = self.mtsintegfactors\<close> and
  \<open>nlev = self.forces.nmtslevels()\<close>.  \<^verbatim>\<open>facs[index]\<close> raises \<^verbatim>\<open>IndexError\<close> beyond the
  end of the list, \<^verbatim>\<open>range(nmts)\<close> is empty for \<open>nmts \<le> 0\<close>, and every pass of the loop
  makes the same calls.
\<close>

function mtsprop :: "int list \<Rightarrow> nat \<Rightarrow> nat \<Rightarrow> real \<Rightarrow> error + op list" where
  "mtsprop facs nlev index alpha =
     (if length facs \<le> index then Inl IndexError
      else
        let nmts = facs ! index;
            alpha = alpha * real_of_int nmts
        in if nmts \<le> 0 then Inr []
           else
             ebind (if int index = int nlev - 1
                    then Inr [OpMTSQcstep alpha, OpFreeQstep]
                    else mtsprop facs nlev (index + 1) alpha)
               (\<lambda>inner. Inr (concat (replicate (nat nmts)
                  ([OpMTSPstep index (2.0 * alpha), OpPconstraints] @ inner @
                   [OpMTSPstep index (2.0 * alpha), OpPconstraints])))))"
  by pat_completeness auto
termination
  by (relation "measure (\<lambda>(facs, nlev, index, alpha). length facs - index)") auto

definition MTS_step_ops :: "ensemble \<Rightarrow> nat \<Rightarrow> error + op list" where
  "MTS_step_ops c nlev =
     ebind (mtsprop (mtsintegfactors c) nlev 0 1.0) (\<lambda>tr.
       Inr ([OpThermostat, OpPconstraints, OpBiasKick] @ tr @
            [OpBiasKick, OpThermostat, OpPconstraints]))"


definition NVT_step :: "'x collab \<Rightarrow> ensemble \<Rightarrow> 'x sim \<Rightarrow> error + 'x sim" where
  "NVT_step k c s = run_ops k c NVT_step_ops s"

definition NPT_step :: "'x collab \<Rightarrow> ensemble \<Rightarrow> 'x sim \<Rightarrow> error + 'x sim" where
  "NPT_step k c s = run_ops k c NPT_step_ops s"

definition NST_step :: "'x collab \<Rightarrow> ensemble \<Rightarrow> 'x sim \<Rightarrow> error + 'x sim" where
  "NST_step k c s = run_ops k c NST_step_ops s"





section \<open>Replaying a trajectory\<close>

text \<open>
  The trajectory file is the list of the frames not yet read.  \<^verbatim>\<open>read_xyz\<close> and
  \<^verbatim>\<open>read_pdb\<close> take the next frame or raise \<^verbatim>\<open>EOFError\<close>; an xyz frame carries positions,
  a pdb frame positions and a cell.  \<open>rchk\<close> is what parsing the file as a checkpoint
  yields (cell and bead positions), if it parses.  \<open>intraj_ufac\<close> is the value of
  \<^verbatim>\<open>unit_to_internal("length", self.intraj.units, 1.0)\<close>.
\<close>

record frame =
  frame_q :: vec
  frame_h :: arr

record intraj =
  intraj_mode :: string
  intraj_ufac :: real

record 'x replay =
  rsim :: "'x sim"
  rfile :: "frame list"
  rchk :: "(arr \<times> arr) option"
  rstep :: int

text \<open>
  A call either returns, or ends in \<^verbatim>\<open>softexit.trigger(msg)\<close>, the controlled
  termination of the run, or raises an exception.
\<close>

datatype 'a outcome = Returned 'a | SoftExit string 'a | Raised error

text \<open>
  The loops \<^verbatim>\<open>for b in self.beads\<close>.  At the end of the file the beads already
  overwritten stay overwritten.  \<^verbatim>\<open>b.q[:] = myatoms.q\<close> raises \<^verbatim>\<open>ValueError\<close> when
  the frame has another number of coordinates.
\<close>

datatype 'a rd = Got 'a | Eof 'a | Bad error

fun xyz_beads :: "real \<Rightarrow> frame list \<Rightarrow> arr \<Rightarrow> (arr \<times> frame list) rd" where
  "xyz_beads u fs [] = Got ([], fs)"
| "xyz_beads u [] (b # bs) = Eof (b # bs, [])"
| "xyz_beads u (f # fs) (b # bs) =
     (if length (frame_q f) \<noteq> length b then Bad ValueError
      else case xyz_beads u fs bs of
             Got (bs1, r) \<Rightarrow> Got (map (\<lambda>x. x * u) (frame_q f) # bs1, r)
           | Eof (bs1, r) \<Rightarrow> Eof (map (\<lambda>x. x * u) (frame_q f) # bs1, r)
           | Bad e \<Rightarrow> Bad e)"

fun pdb_beads ::
  "real \<Rightarrow> frame list \<Rightarrow> arr option \<Rightarrow> arr \<Rightarrow> (arr \<times> frame list \<times> arr option) rd" where
  "pdb_beads u fs mycell [] = Got ([], fs, mycell)"
| "pdb_beads u [] mycell (b # bs) = Eof (b # bs, [], mycell)"
| "pdb_beads u (f # fs) mycell (b # bs) =
     (if length (frame_q f) \<noteq> length b then Bad ValueError
      else case pdb_beads u fs (Some (map (map (\<lambda>x. x * u)) (frame_h f))) bs of
             Got (bs1, r) \<Rightarrow> Got (map (\<lambda>x. x * u) (frame_q f) # bs1, r)
           | Eof (bs1, r) \<Rightarrow> Eof (map (\<lambda>x. x * u) (frame_q f) # bs1, r)
           | Bad e \<Rightarrow> Bad e)"

text \<open>One pass of the \<^verbatim>\<open>try\<close> statement inside \<^verbatim>\<open>while True\<close>.\<close>

definition replay_body :: "intraj \<Rightarrow> 'x replay \<Rightarrow> 'x replay outcome" where
  "replay_body j r =
     (let s = rsim r; u = intraj_ufac j in
      if intraj_mode j = ''xyz'' then
        (case xyz_beads u (rfile r) (beads_q s) of
           Got (qs, rest) \<Rightarrow> Returned (r\<lparr>rsim := s\<lparr>beads_q := qs\<rparr>, rfile := rest\<rparr>)
         | Eof (qs, rest) \<Rightarrow>
             SoftExit '' # Finished reading re-run trajectory''
               (r\<lparr>rsim := s\<lparr>beads_q := qs\<rparr>, rfile := rest\<rparr>)
         | Bad e \<Rightarrow> Raised e)
      else if intraj_mode j = ''pdb'' then
        (case pdb_beads u (rfile r) None (beads_q s) of
           Got (qs, rest, mycell) \<Rightarrow>
             (case mycell of
                None \<Rightarrow> Raised NameError
              | Some hh \<Rightarrow> Returned (r\<lparr>rsim := s\<lparr>beads_q := qs, cell_h := hh\<rparr>, rfile := rest\<rparr>))
         | Eof (qs, rest, mycell) \<Rightarrow>
             SoftExit '' # Finished reading re-run trajectory''
               (r\<lparr>rsim := s\<lparr>beads_q := qs\<rparr>, rfile := rest\<rparr>)
         | Bad e \<Rightarrow> Raised e)
      else if intraj_mode j = ''chk'' \<or> intraj_mode j = ''checkpoint'' then
        (case rchk r of
           None \<Rightarrow> Raised ValueError
         | Some (hh, qs) \<Rightarrow>
             if map length qs \<noteq> map length (beads_q s) then Raised ValueError
             else SoftExit '' # Read single checkpoint''
                    (r\<lparr>rsim := s\<lparr>cell_h := hh, beads_q := qs\<rparr>\<rparr>))
      else Returned r)"

text \<open>
  \<^verbatim>\<open>ReplayEnsemble.step(step)\<close>: the loop \<^verbatim>\<open>while True\<close>, left by
  \<^verbatim>\<open>if (step==None or self.rstep>step): break\<close>.  \<open>n\<close> is \<^verbatim>\<open>self.rstep\<close>.
\<close>

function replay_loop :: "intraj \<Rightarrow> int option \<Rightarrow> int \<Rightarrow> 'x replay \<Rightarrow> 'x replay outcome" where
  "replay_loop j step n r =
     (case replay_body j r of
        Returned r1 \<Rightarrow>
          (case step of
             None \<Rightarrow> Returned (r1\<lparr>rstep := n + 1\<rparr>)
           | Some st \<Rightarrow>
               if n + 1 > st then Returned (r1\<lparr>rstep := n + 1\<rparr>)
               else replay_loop j step (n + 1) r1)
      | SoftExit msg r1 \<Rightarrow> SoftExit msg (r1\<lparr>rstep := n + 1\<rparr>)
      | Raised e \<Rightarrow> Raised e)"
  by pat_completeness auto
termination
  by (relation "measure (\<lambda>(j, step, n, r). nat (the step - n))") auto

definition ReplayEnsemble_step :: "intraj \<Rightarrow> int option \<Rightarrow> 'x replay \<Rightarrow> 'x replay outcome" where
  "ReplayEnsemble_step j step r = replay_loop j step (rstep r) r"

text \<open>\<^verbatim>\<open>ReplayEnsemble\<close> derives from \<^verbatim>\<open>Ensemble\<close> and overrides only \<^verbatim>\<open>step\<close>.\<close>

definition ReplayEnsemble_pconstraints :: "ensemble \<Rightarrow> 'x sim \<Rightarrow> error + 'x sim" where
  "ReplayEnsemble_pconstraints = Ensemble_pconstraints"

definition ReplayEnsemble_bind :: "ensemble \<Rightarrow> 'x sim \<Rightarrow> error + 'x sim" where
  "ReplayEnsemble_bind = Ensemble_bind ReplayEnsemble_pconstraints"

text \<open>Calling \<^verbatim>\<open>step()\<close> again and again, as the driver does, until a call does not return.\<close>

fun replay_steps :: "intraj \<Rightarrow> nat \<Rightarrow> 'x replay \<Rightarrow> 'x replay outcome" where
  "replay_steps j 0 r = Returned r"
| "replay_steps j (Suc n) r =
     (case replay_steps j n r of
        Returned r1 \<Rightarrow> ReplayEnsemble_step j None r1
      | SoftExit msg r1 \<Rightarrow> SoftExit msg r1
      | Raised e \<Rightarrow> Raised e)"


section \<open>The driver\<close>












section \<open>Vocabulary of the statements\<close>







text \<open>
  The momenta after \<^verbatim>\<open>p += f*hh\<close> for arrays of one shape, and after several such
  kicks in a row.
\<close>

definition kicked :: "real \<Rightarrow> arr \<Rightarrow> arr \<Rightarrow> arr" where
  "kicked hh f pp = map2 (\<lambda>bp bf. map2 (\<lambda>x y. x + y * hh) bp bf) pp f"

definition kicks :: "real \<Rightarrow> arr list \<Rightarrow> arr \<Rightarrow> arr" where
  "kicks hh fs pp = foldl (\<lambda>p f. kicked hh f p) pp fs"











text \<open>
  The half-steps that modify the bead momenta: force kicks, bias kicks, the thermostat
  half-step and the barostat's momentum half-step.  The barostat's own thermostat acts
  on the barostat, not on the beads.
\<close>

fun modifies_p :: "op \<Rightarrow> bool" where
  "modifies_p OpPstep = True"
| "modifies_p (OpMTSPstep level alpha) = True"
| "modifies_p OpBiasKick = True"
| "modifies_p OpThermostat = True"
| "modifies_p OpBaroPstep = True"
| "modifies_p _ = False"

text \<open>
  The updates whose result depends on the bead momenta: the position updates, and the
  thermostat and barostat half-steps.  A kick adds a force times a time step whatever the
  momenta are.
\<close>

fun uses_p :: "op \<Rightarrow> bool" where
  "uses_p OpQcstep = True"
| "uses_p (OpMTSQcstep alpha) = True"
| "uses_p OpFreeQstep = True"
| "uses_p OpBaroQcstep = True"
| "uses_p OpThermostat = True"
| "uses_p OpBaroPstep = True"
| "uses_p _ = False"

text \<open>
  Reading on from a point of a step: \<^verbatim>\<open>pconstraints()\<close> is called before any update that
  uses the momenta.  A step is \<open>constrained\<close> when this holds after every half-step that
  modifies the momenta, and \<open>tight\<close> when \<^verbatim>\<open>pconstraints()\<close> is the very next call.
\<close>

fun pcons_before_use :: "op list \<Rightarrow> bool" where
  "pcons_before_use [] = False"
| "pcons_before_use (x # xs) =
     (if x = OpPconstraints then True else if uses_p x then False else pcons_before_use xs)"

fun constrained :: "op list \<Rightarrow> bool" where
  "constrained [] = True"
| "constrained (x # xs) = ((modifies_p x \<longrightarrow> pcons_before_use xs) \<and> constrained xs)"

fun tight :: "op list \<Rightarrow> bool" where
  "tight [] = True"
| "tight [x] = (\<not> modifies_p x)"
| "tight (x # y # zs) = ((modifies_p x \<longrightarrow> y = OpPconstraints) \<and> tight (y # zs))"

text \<open>The positions of a list of frames, converted to internal units.\<close>

definition scaled :: "real \<Rightarrow> frame list \<Rightarrow> arr" where
  "scaled u fs = map (\<lambda>f. map (\<lambda>x. x * u) (frame_q f)) fs"

section \<open>Concrete inputs\<close>

text \<open>One bead, two atoms of mass 1, the first one moving along x.\<close>

definition ex_sim :: "unit sim" where
  "ex_sim = \<lparr>beads_q = [[0, 0, 0, 1, 0, 0]], beads_p = [[1, 0, 0, 0, 0, 0]], beads_m = [1, 1],
             cell_h = [[1, 0, 0], [0, 1, 0], [0, 0, 1]], eens = 0, ethermo = 0, ebaro = 0,
             nm_dt = 1, aux = ()\<rparr>"

definition ex_ens :: "bool \<Rightarrow> int list \<Rightarrow> int list \<Rightarrow> ensemble" where
  "ex_ens fc fx facs = \<lparr>dt = 1, temp = 1, fixcom = fc, fixatoms = fx, mtsintegfactors = facs\<rparr>"

text \<open>A two-atom xyz frame, a trajectory source in xyz format, and a replay of frames.\<close>

definition ex_frame :: "real \<Rightarrow> frame" where
  "ex_frame x = \<lparr>frame_q = [x, 0, 0, x + 1, 0, 0], frame_h = [[1, 0, 0], [0, 1, 0], [0, 0, 1]]\<rparr>"

definition ex_traj :: intraj where
  "ex_traj = \<lparr>intraj_mode = ''xyz'', intraj_ufac = 2\<rparr>"

definition ex_replay :: "frame list \<Rightarrow> unit replay" where
  "ex_replay fs = \<lparr>rsim = ex_sim, rfile = fs, rchk = None, rstep = 0\<rparr>"






section \<open>Momentum constraints: proofs\<close>






lemma upt3: "[0..<3] = [0, 1, 2]"
  by (simp add: upt_rec)


















section \<open>Conserved quantity and replay: proofs\<close>

lemma replay_body_frame:
  "replay_body j r = Returned r1 \<or> replay_body j r = SoftExit msg r1 \<Longrightarrow>
     beads_p (rsim r1) = beads_p (rsim r) \<and> eens (rsim r1) = eens (rsim r)"
  by (auto simp: replay_body_def Let_def split: if_splits rd.splits option.splits prod.splits)

lemma replay_loop_frame:
  "replay_loop j step n r = Returned r1 \<or> replay_loop j step n r = SoftExit msg r1 \<Longrightarrow>
     beads_p (rsim r1) = beads_p (rsim r) \<and> eens (rsim r1) = eens (rsim r)"
proof (induction j step n r rule: replay_loop.induct)
  case (1 j step n r)
  show ?case
  proof (cases "replay_body j r")
    case (Returned r2)
    then have fr: "beads_p (rsim r2) = beads_p (rsim r) \<and> eens (rsim r2) = eens (rsim r)"
      using replay_body_frame[of j r r2] by simp
    show ?thesis
    proof (cases step)
      case None
      then show ?thesis using "1.prems" Returned fr by (auto simp: replay_loop.simps[of j step n r])
    next
      case (Some st)
      show ?thesis
      proof (cases "n + 1 > st")
        case True
        then show ?thesis using "1.prems" Returned fr Some
          by (auto simp: replay_loop.simps[of j step n r])
      next
        case False
        then have "replay_loop j step n r = replay_loop j step (n + 1) r2"
          using Returned Some by (simp add: replay_loop.simps[of j step n r])
        then show ?thesis using "1.IH"[OF Returned Some] False "1.prems" fr by auto
      qed
    qed
  next
    case (SoftExit m r2)
    then have fr: "beads_p (rsim r2) = beads_p (rsim r) \<and> eens (rsim r2) = eens (rsim r)"
      using replay_body_frame[of j r r2 m] by simp
    then show ?thesis using "1.prems" SoftExit by (auto simp: replay_loop.simps[of j step n r])
  next
    case (Raised e)
    then show ?thesis using "1.prems" by (auto simp: replay_loop.simps[of j step n r])
  qed
qed

text \<open>
  Claim C3.  The conserved quantity of \<^verbatim>\<open>NVTEnsemble\<close> is that of \<^verbatim>\<open>NVEEnsemble\<close> on the
  same state plus the thermostat heat \<open>ethermo\<close>, and the conserved quantity of
  \<^verbatim>\<open>NPTEnsemble\<close> is that of \<^verbatim>\<open>NVTEnsemble\<close> plus the barostat heat \<open>ebaro\<close>; written out,
  it is the spring, kinetic, potential and bias energies plus \<open>eens\<close> plus both heats.
\<close>

theorem econs_heat_terms:
  "NVT_get_econs k s = NVE_get_econs k s + ethermo s \<and>
   NPT_get_econs k s = NVT_get_econs k s + ebaro s \<and>
   NPT_get_econs k s =
     beads_vpath k (beads_q s) * nm_omegan2 k + nm_kin k (beads_p s) (beads_m s)
       + forces_pot k (beads_q s) (cell_h s) + bias_pot k (beads_q s) (cell_h s)
       + eens s + ethermo s + ebaro s"
  by (simp add: NPT_get_econs_def NVT_get_econs_def NVE_get_econs_def Ensemble_get_econs_def)

text \<open>
  Claim C10.  \<^verbatim>\<open>ReplayEnsemble\<close> has the \<^verbatim>\<open>pconstraints\<close> of the base class, which changes
  nothing, whatever \<open>fixcom\<close> and \<open>fixatoms\<close> say.  So the constraint pass of \<^verbatim>\<open>bind()\<close>
  leaves the state as it is, and a replayed step, whether it returns or ends the run,
  leaves all momenta and \<open>eens\<close> as they were.
\<close>

theorem replay_no_momentum_constraints:
  "ReplayEnsemble_pconstraints c s = Inr s \<and>
   ReplayEnsemble_bind c s = Inr s \<and>
   (ReplayEnsemble_step j step r = Returned r1 \<or> ReplayEnsemble_step j step r = SoftExit msg r1
      \<longrightarrow> beads_p (rsim r1) = beads_p (rsim r) \<and> eens (rsim r1) = eens (rsim r))"
  using replay_loop_frame[of j step "rstep r" r r1 msg]
  by (simp add: ReplayEnsemble_pconstraints_def ReplayEnsemble_bind_def Ensemble_bind_def
      Ensemble_pconstraints_def ReplayEnsemble_step_def)


section \<open>Replaying a trajectory: proofs\<close>

lemma xyz_beads_enough:
  assumes "length bs \<le> length fs"
    and "\<forall>f \<in> set fs. length (frame_q f) = n"
    and "\<forall>b \<in> set bs. length b = n"
  shows "xyz_beads u fs bs = Got (scaled u (take (length bs) fs), drop (length bs) fs)"
  using assms
proof (induction u fs bs rule: xyz_beads.induct)
  case (1 u fs)
  then show ?case by (simp add: scaled_def)
next
  case (2 u b bs)
  then show ?case by simp
next
  case (3 u f fs b bs)
  then show ?case by (simp add: scaled_def)
qed

lemma pdb_beads_enough:
  assumes "length bs \<le> length fs"
    and "\<forall>f \<in> set fs. length (frame_q f) = n"
    and "\<forall>b \<in> set bs. length b = n"
  shows "\<exists>c. pdb_beads u fs mycell bs = Got (scaled u (take (length bs) fs), drop (length bs) fs, c)
             \<and> (c = None \<longrightarrow> mycell = None \<and> bs = [])"
  using assms
proof (induction u fs mycell bs rule: pdb_beads.induct)
  case (1 u fs mycell)
  then show ?case by (simp add: scaled_def)
next
  case (2 u mycell b bs)
  then show ?case by simp
next
  case (3 u f fs mycell b bs)
  then obtain c where "pdb_beads u fs (Some (map (map (\<lambda>x. x * u)) (frame_h f))) bs
        = Got (scaled u (take (length bs) fs), drop (length bs) fs, c)"
      "c = None \<longrightarrow> Some (map (map (\<lambda>x. x * u)) (frame_h f)) = None \<and> bs = []"
    by fastforce
  then show ?case using 3 by (auto simp: scaled_def)
qed

lemma xyz_beads_eof: "bs \<noteq> [] \<Longrightarrow> xyz_beads u [] bs = Eof (bs, [])"
  by (cases bs) auto

lemma pdb_beads_eof: "bs \<noteq> [] \<Longrightarrow> pdb_beads u [] mycell bs = Eof (bs, [], mycell)"
  by (cases bs) auto

lemma step_None:
  "ReplayEnsemble_step j None r =
     (case replay_body j r of
        Returned r1 \<Rightarrow> Returned (r1\<lparr>rstep := rstep r + 1\<rparr>)
      | SoftExit msg r1 \<Rightarrow> SoftExit msg (r1\<lparr>rstep := rstep r + 1\<rparr>)
      | Raised e \<Rightarrow> Raised e)"
  by (simp add: ReplayEnsemble_step_def split: outcome.splits)

lemma replay_body_enough:
  assumes mode: "intraj_mode j = ''xyz'' \<or> intraj_mode j = ''pdb''"
    and nb: "0 < length (beads_q (rsim r))"
    and le: "length (beads_q (rsim r)) \<le> length (rfile r)"
    and fr: "\<forall>f \<in> set (rfile r). length (frame_q f) = n"
    and rows: "\<forall>b \<in> set (beads_q (rsim r)). length b = n"
  shows "\<exists>r'. replay_body j r = Returned r' \<and>
           beads_q (rsim r') = scaled (intraj_ufac j) (take (length (beads_q (rsim r))) (rfile r)) \<and>
           rfile r' = drop (length (beads_q (rsim r))) (rfile r)"
proof (cases "intraj_mode j = ''xyz''")
  case True
  then show ?thesis
    using xyz_beads_enough[OF le fr rows, of "intraj_ufac j"]
    by (simp add: replay_body_def Let_def)
next
  case False
  then have pdb: "intraj_mode j = ''pdb''" using mode by simp
  obtain c where c: "pdb_beads (intraj_ufac j) (rfile r) None (beads_q (rsim r))
        = Got (scaled (intraj_ufac j) (take (length (beads_q (rsim r))) (rfile r)),
               drop (length (beads_q (rsim r))) (rfile r), c)"
      "c = None \<longrightarrow> beads_q (rsim r) = []"
    using pdb_beads_enough[OF le fr rows, of "intraj_ufac j" None] by auto
  then obtain hh where "c = Some hh" using nb by (cases c) auto
  then show ?thesis
    using c(1) pdb by (simp add: replay_body_def Let_def)
qed

lemma replay_body_exhausted:
  assumes mode: "intraj_mode j = ''xyz'' \<or> intraj_mode j = ''pdb''"
    and nb: "0 < length (beads_q (rsim r))"
    and empty: "rfile r = []"
  shows "replay_body j r = SoftExit '' # Finished reading re-run trajectory'' r"
proof -
  have ne: "beads_q (rsim r) \<noteq> []" using nb by auto
  show ?thesis
    using mode xyz_beads_eof[OF ne] pdb_beads_eof[OF ne] empty
    by (auto simp: replay_body_def Let_def)
qed


lemma replay_steps_invariant:
  assumes mode: "intraj_mode j = ''xyz'' \<or> intraj_mode j = ''pdb''"
    and nb: "0 < nb" "length (beads_q (rsim r)) = nb"
    and rows: "\<forall>b \<in> set (beads_q (rsim r)). length b = n"
    and fr: "\<forall>f \<in> set (rfile r). length (frame_q f) = n"
    and len: "length (rfile r) = K * nb"
    and i: "i \<le> K"
  shows "\<exists>r'. replay_steps j i r = Returned r' \<and> rfile r' = drop (i * nb) (rfile r) \<and>
           length (beads_q (rsim r')) = nb \<and> (\<forall>b \<in> set (beads_q (rsim r')). length b = n) \<and>
           (0 < i \<longrightarrow> beads_q (rsim r')
                        = scaled (intraj_ufac j) (take nb (drop ((i - 1) * nb) (rfile r))))"
  using i
proof (induction i)
  case 0
  then show ?case using nb rows by simp
next
  case (Suc i)
  then obtain r1 where r1: "replay_steps j i r = Returned r1" "rfile r1 = drop (i * nb) (rfile r)"
      "length (beads_q (rsim r1)) = nb" "\<forall>b \<in> set (beads_q (rsim r1)). length b = n"
    by auto
  have "(i + 1) * nb \<le> K * nb" using Suc.prems by (intro mult_le_mono1) simp
  then have le: "length (beads_q (rsim r1)) \<le> length (rfile r1)"
    using r1(2,3) len by (simp add: algebra_simps)
  have fr1: "\<forall>f \<in> set (rfile r1). length (frame_q f) = n"
    using fr r1(2) by (auto dest: in_set_dropD)
  have nb1: "0 < length (beads_q (rsim r1))" using nb(1) r1(3) by simp
  obtain r2 where r2: "replay_body j r1 = Returned r2"
      "beads_q (rsim r2) = scaled (intraj_ufac j) (take nb (rfile r1))"
      "rfile r2 = drop nb (rfile r1)"
    using replay_body_enough[OF mode nb1 le fr1 r1(4)] r1(3) by auto
  define r3 where "r3 = r2\<lparr>rstep := rstep r1 + 1\<rparr>"
  have st: "replay_steps j (Suc i) r = Returned r3"
    using r1(1) r2(1) by (simp add: step_None r3_def)
  have f3: "rfile r3 = drop (Suc i * nb) (rfile r)"
    using r2(3) r1(2) by (simp add: r3_def add.commute)
  have q3: "beads_q (rsim r3) = scaled (intraj_ufac j) (take nb (drop (i * nb) (rfile r)))"
    using r2(2) r1(2) by (simp add: r3_def)
  have l3: "length (beads_q (rsim r3)) = nb"
    using le r1(2,3) unfolding q3 by (simp add: scaled_def)
  have rows3: "\<forall>b \<in> set (beads_q (rsim r3)). length b = n"
    unfolding q3 using fr by (auto simp: scaled_def dest!: in_set_takeD in_set_dropD)
  show ?case
    using st f3 q3 l3 rows3 by (intro exI[of _ r3]) simp
qed

text \<open>
  Claim C8.  A trajectory source in xyz or pdb format holds \<open>K\<close> whole frame sets, one frame
  per bead, each frame with as many coordinates as a bead has.  Then each of the first
  \<open>K\<close> calls of \<^verbatim>\<open>step()\<close> returns, having overwritten the bead positions with the frame
  set it read, converted to internal units; and call \<open>K + 1\<close> ends in
  \<^verbatim>\<open>softexit.trigger\<close>, the controlled termination, not in an exception.
\<close>

theorem replay_exhausts_source:
  assumes mode: "intraj_mode j = ''xyz'' \<or> intraj_mode j = ''pdb''"
    and nb: "0 < nb" "length (beads_q (rsim r)) = nb"
    and rows: "\<forall>b \<in> set (beads_q (rsim r)). length b = n"
    and fr: "\<forall>f \<in> set (rfile r). length (frame_q f) = n"
    and len: "length (rfile r) = K * nb"
  shows "(\<forall>i < K. \<exists>r'. replay_steps j (Suc i) r = Returned r' \<and>
            beads_q (rsim r') = scaled (intraj_ufac j) (take nb (drop (i * nb) (rfile r)))) \<and>
         (\<exists>r'. replay_steps j (Suc K) r = SoftExit '' # Finished reading re-run trajectory'' r')"
proof
  show "\<forall>i < K. \<exists>r'. replay_steps j (Suc i) r = Returned r' \<and>
            beads_q (rsim r') = scaled (intraj_ufac j) (take nb (drop (i * nb) (rfile r)))"
  proof (intro allI impI)
    fix i assume "i < K"
    then have "Suc i \<le> K" by simp
    from replay_steps_invariant[OF mode nb rows fr len this]
    show "\<exists>r'. replay_steps j (Suc i) r = Returned r' \<and>
            beads_q (rsim r') = scaled (intraj_ufac j) (take nb (drop (i * nb) (rfile r)))"
      by auto
  qed
next
  obtain r1 where r1: "replay_steps j K r = Returned r1" "rfile r1 = drop (K * nb) (rfile r)"
      "length (beads_q (rsim r1)) = nb"
    using replay_steps_invariant[OF mode nb rows fr len order_refl] by auto
  have "rfile r1 = []" using r1(2) len by simp
  moreover have "0 < length (beads_q (rsim r1))" using nb(1) r1(3) by simp
  ultimately have "replay_body j r1 = SoftExit '' # Finished reading re-run trajectory'' r1"
    using replay_body_exhausted[OF mode] by blast
  then show "\<exists>r'. replay_steps j (Suc K) r = SoftExit '' # Finished reading re-run trajectory'' r'"
    using r1(1) by (simp add: step_None)
qed

theorem replay_exhausts_source_witness:
  "intraj_mode ex_traj = ''xyz'' \<and>
   length (beads_q (rsim (ex_replay [ex_frame 1, ex_frame 2]))) = 1 \<and>
   length (rfile (ex_replay [ex_frame 1, ex_frame 2])) = 2 * 1 \<and>
   (\<exists>r'. replay_steps ex_traj (Suc 0) (ex_replay [ex_frame 1, ex_frame 2]) = Returned r' \<and>
          beads_q (rsim r') = [[2, 0, 0, 4, 0, 0]]) \<and>
   (\<exists>r'. replay_steps ex_traj (Suc 1) (ex_replay [ex_frame 1, ex_frame 2]) = Returned r' \<and>
          beads_q (rsim r') = [[4, 0, 0, 6, 0, 0]]) \<and>
   (\<exists>r'. replay_steps ex_traj (Suc 2) (ex_replay [ex_frame 1, ex_frame 2])
            = SoftExit '' # Finished reading re-run trajectory'' r')"
proof -
  let ?r = "ex_replay [ex_frame 1, ex_frame 2]"
  have h1: "intraj_mode ex_traj = ''xyz'' \<or> intraj_mode ex_traj = ''pdb''"
    by (simp add: ex_traj_def)
  have h2: "(0::nat) < 1" by simp
  have h3: "length (beads_q (rsim ?r)) = 1" by (simp add: ex_replay_def ex_sim_def)
  have h4: "\<forall>b \<in> set (beads_q (rsim ?r)). length b = 6" by (simp add: ex_replay_def ex_sim_def)
  have h5: "\<forall>f \<in> set (rfile ?r). length (frame_q f) = 6" by (simp add: ex_replay_def ex_frame_def)
  have h6: "length (rfile ?r) = 2 * 1" by (simp add: ex_replay_def)
  note w = replay_exhausts_source[OF h1 h2 h3 h4 h5 h6]
  have s0: "scaled (intraj_ufac ex_traj) (take 1 (drop (0 * 1) (rfile ?r))) = [[2, 0, 0, 4, 0, 0]]"
    and s1: "scaled (intraj_ufac ex_traj) (take 1 (drop (1 * 1) (rfile ?r))) = [[4, 0, 0, 6, 0, 0]]"
    by (simp_all add: scaled_def ex_traj_def ex_replay_def ex_frame_def)
  have a0: "\<exists>r'. replay_steps ex_traj (Suc 0) ?r = Returned r' \<and>
          beads_q (rsim r') = [[2, 0, 0, 4, 0, 0]]"
    using w[THEN conjunct1, rule_format, of 0] unfolding s0 by simp
  have a1: "\<exists>r'. replay_steps ex_traj (Suc 1) ?r = Returned r' \<and>
          beads_q (rsim r') = [[4, 0, 0, 6, 0, 0]]"
    using w[THEN conjunct1, rule_format, of 1] unfolding s1 by simp
  show ?thesis
    using a0 a1 w[THEN conjunct2] h3 h6 by (simp add: ex_traj_def)
qed

theorem replay_no_momentum_constraints_witness:
  "ReplayEnsemble_step ex_traj None (ex_replay [ex_frame 1])
      = Returned (ex_replay []\<lparr>rsim := ex_sim\<lparr>beads_q := [[2, 0, 0, 4, 0, 0]]\<rparr>, rstep := 1\<rparr>) \<and>
   fixcom (ex_ens True [0] [1]) \<and> fixatoms (ex_ens True [0] [1]) = [0] \<and>
   ReplayEnsemble_pconstraints (ex_ens True [0] [1]) ex_sim = Inr ex_sim \<and>
   ReplayEnsemble_bind (ex_ens True [0] [1]) ex_sim = Inr ex_sim \<and>
   beads_p (rsim (ex_replay []\<lparr>rsim := ex_sim\<lparr>beads_q := [[2, 0, 0, 4, 0, 0]]\<rparr>, rstep := 1\<rparr>))
     = [[1, 0, 0, 0, 0, 0]] \<and>
   eens (rsim (ex_replay []\<lparr>rsim := ex_sim\<lparr>beads_q := [[2, 0, 0, 4, 0, 0]]\<rparr>, rstep := 1\<rparr>)) = 0"
proof -
  let ?r1 = "ex_replay []\<lparr>rsim := ex_sim\<lparr>beads_q := [[2, 0, 0, 4, 0, 0]]\<rparr>, rstep := 1\<rparr>"
  have h: "ReplayEnsemble_step ex_traj None (ex_replay [ex_frame 1]) = Returned ?r1"
    by (simp add: step_None replay_body_def ex_traj_def ex_replay_def ex_frame_def ex_sim_def)
  have p: "beads_p (rsim (ex_replay [ex_frame 1])) = [[1, 0, 0, 0, 0, 0]]"
     and e: "eens (rsim (ex_replay [ex_frame 1])) = 0"
    by (simp_all add: ex_replay_def ex_sim_def)
  have c: "fixcom (ex_ens True [0] [1]) \<and> fixatoms (ex_ens True [0] [1]) = [0]"
    by (simp add: ex_ens_def)
  show ?thesis
    using replay_no_momentum_constraints[of "ex_ens True [0] [1]" ex_sim ex_traj None
        "ex_replay [ex_frame 1]" ?r1 "[]"] h p e c
    by simp
qed

section \<open>The calls of a time step: proofs\<close>





lemma tight_Cons_pcons: "tight xs \<Longrightarrow> tight (OpPconstraints # xs)"
  by (cases xs) simp_all

lemma tight_append: "tight xs \<Longrightarrow> tight ys \<Longrightarrow> tight (xs @ ys)"
proof (induction xs rule: tight.induct)
  case 1
  then show ?case by simp
next
  case (2 x)
  then show ?case by (cases ys) simp_all
next
  case (3 x y zs)
  then show ?case by simp
qed

lemma tight_concat_replicate: "tight xs \<Longrightarrow> tight (concat (replicate n xs))"
  by (induction n) (simp_all add: tight_append)

lemma tight_constrained: "tight xs \<Longrightarrow> constrained xs"
  by (induction xs rule: tight.induct) auto

lemma mtsprop_tight: "mtsprop facs nlev index alpha = Inr tr \<Longrightarrow> tight tr"
proof (induction facs nlev index alpha arbitrary: tr rule: mtsprop.induct)
  case (1 facs nlev index alpha)
  show ?case
  proof (cases "length facs \<le> index \<or> facs ! index \<le> 0")
    case True
    then show ?thesis using "1.prems"
      by (subst (asm) mtsprop.simps) (auto simp: Let_def split: if_splits)
  next
    case False
    define a where "a = alpha * real_of_int (facs ! index)"
    define inner where "inner = (if int index = int nlev - 1
                    then Inr [OpMTSQcstep a, OpFreeQstep]
                    else mtsprop facs nlev (index + 1) a)"
    have eq: "mtsprop facs nlev index alpha =
        ebind inner (\<lambda>inner. Inr (concat (replicate (nat (facs ! index))
                  ([OpMTSPstep index (2.0 * a), OpPconstraints] @ inner @
                   [OpMTSPstep index (2.0 * a), OpPconstraints]))))"
      using False by (subst mtsprop.simps) (simp add: Let_def inner_def a_def)
    then obtain itr where itr: "inner = Inr itr"
        "tr = concat (replicate (nat (facs ! index))
                  ([OpMTSPstep index (2.0 * a), OpPconstraints] @ itr @
                   [OpMTSPstep index (2.0 * a), OpPconstraints]))"
      using "1.prems" by (cases inner) (auto simp: ebind_def)
    have "tight itr"
    proof (cases "int index = int nlev - 1")
      case True
      then show ?thesis using itr(1) by (auto simp: inner_def)
    next
      case F: False
      then have "mtsprop facs nlev (index + 1) a = Inr itr" using itr(1) by (simp add: inner_def)
      then show ?thesis
        using "1.IH"[of "facs ! index" a itr] False F by (simp add: a_def)
    qed
    then have "tight ([OpMTSPstep index (2.0 * a), OpPconstraints] @ itr @
                   [OpMTSPstep index (2.0 * a), OpPconstraints])"
      by (intro tight_append) simp_all
    then show ?thesis unfolding itr(2) by (rule tight_concat_replicate)
  qed
qed

lemma mtsprop_starts:
  assumes "mtsprop facs nlev 0 alpha = Inr tr" and "0 < facs ! 0"
  shows "\<exists>a rest. tr = OpMTSPstep 0 a # OpPconstraints # rest"
proof -
  have len: "\<not> length facs \<le> 0"
    using assms(1) by (subst (asm) mtsprop.simps) (auto simp: Let_def split: if_splits)
  define a where "a = alpha * real_of_int (facs ! 0)"
  define inner where "inner = (if int 0 = int nlev - 1
                    then Inr [OpMTSQcstep a, OpFreeQstep]
                    else mtsprop facs nlev (0 + 1) a)"
  have eq: "mtsprop facs nlev 0 alpha =
        ebind inner (\<lambda>inner. Inr (concat (replicate (nat (facs ! 0))
                  ([OpMTSPstep 0 (2.0 * a), OpPconstraints] @ inner @
                   [OpMTSPstep 0 (2.0 * a), OpPconstraints]))))"
    using len assms(2) by (subst mtsprop.simps) (simp add: Let_def inner_def a_def)
  then obtain itr where itr: "tr = concat (replicate (nat (facs ! 0))
                  ([OpMTSPstep 0 (2.0 * a), OpPconstraints] @ itr @
                   [OpMTSPstep 0 (2.0 * a), OpPconstraints]))"
    using assms(1) by (cases inner) (auto simp: ebind_def)
  obtain m where m: "nat (facs ! 0) = Suc m" using assms(2) by (cases "nat (facs ! 0)") auto
  show ?thesis unfolding itr m by simp
qed

lemma ex_mts_ops:
  "MTS_step_ops (ex_ens False [] [1]) 1 =
     Inr [OpThermostat, OpPconstraints, OpBiasKick,
          OpMTSPstep 0 2, OpPconstraints, OpMTSQcstep 1, OpFreeQstep, OpMTSPstep 0 2, OpPconstraints,
          OpBiasKick, OpThermostat, OpPconstraints]"
  by (simp add: MTS_step_ops_def ex_ens_def ebind_def Let_def)


text \<open>
  What does hold of the steps.  In the steps of the NVE, NVT, NPT and NST ensembles every
  half-step that modifies the momenta is followed by \<^verbatim>\<open>pconstraints()\<close> before the momenta
  are used.  In \<^verbatim>\<open>MTSEnsemble.step()\<close>, with a positive first factor, this holds of all
  calls before the trailing bias half-kick, and of the thermostat half-step after it.
\<close>

theorem pconstraints_after_kicks:
  "constrained NVE_step_ops \<and> constrained NVT_step_ops \<and>
   constrained NPT_step_ops \<and> constrained NST_step_ops \<and>
   (MTS_step_ops c nlev = Inr tr \<and> 0 < mtsintegfactors c ! 0 \<longrightarrow>
      (\<exists>pre. tr = pre @ [OpBiasKick, OpThermostat, OpPconstraints] \<and> constrained pre \<and>
             constrained [OpThermostat, OpPconstraints]))"
proof -
  have fixed: "constrained NVE_step_ops \<and> constrained NVT_step_ops \<and>
   constrained NPT_step_ops \<and> constrained NST_step_ops"
    by (simp add: NVE_step_ops_def NVT_step_ops_def NPT_step_ops_def NST_step_ops_def)
  have mts: "\<exists>pre. tr = pre @ [OpBiasKick, OpThermostat, OpPconstraints] \<and> constrained pre \<and>
             constrained [OpThermostat, OpPconstraints]"
    if ops: "MTS_step_ops c nlev = Inr tr" and pos: "0 < mtsintegfactors c ! 0"
  proof -
    obtain body where body: "mtsprop (mtsintegfactors c) nlev 0 1.0 = Inr body"
        "tr = [OpThermostat, OpPconstraints, OpBiasKick] @ body @
            [OpBiasKick, OpThermostat, OpPconstraints]"
      using ops by (cases "mtsprop (mtsintegfactors c) nlev 0 1.0")
        (auto simp: MTS_step_ops_def ebind_def)
    have t: "constrained body" using mtsprop_tight[OF body(1)] by (rule tight_constrained)
    obtain a rest where st: "body = OpMTSPstep 0 a # OpPconstraints # rest"
      using mtsprop_starts[OF body(1) pos] by blast
    have "constrained ([OpThermostat, OpPconstraints, OpBiasKick] @ body)"
      using t unfolding st by simp
    then show ?thesis using body(2) by (intro exI[of _ "[OpThermostat, OpPconstraints, OpBiasKick] @ body"]) simp
  qed
  show ?thesis using fixed mts by blast
qed

theorem pconstraints_after_kicks_witness:
  "MTS_step_ops (ex_ens False [] [1]) 1 =
     Inr ([OpThermostat, OpPconstraints, OpBiasKick,
          OpMTSPstep 0 2, OpPconstraints, OpMTSQcstep 1, OpFreeQstep, OpMTSPstep 0 2, OpPconstraints]
          @ [OpBiasKick, OpThermostat, OpPconstraints]) \<and>
   0 < mtsintegfactors (ex_ens False [] [1]) ! 0 \<and>
   constrained [OpThermostat, OpPconstraints, OpBiasKick,
          OpMTSPstep 0 2, OpPconstraints, OpMTSQcstep 1, OpFreeQstep, OpMTSPstep 0 2, OpPconstraints] \<and>
   constrained NVE_step_ops \<and> constrained NVT_step_ops \<and>
   constrained NPT_step_ops \<and> constrained NST_step_ops"
proof -
  have h: "MTS_step_ops (ex_ens False [] [1]) 1 =
     Inr ([OpThermostat, OpPconstraints, OpBiasKick,
          OpMTSPstep 0 2, OpPconstraints, OpMTSQcstep 1, OpFreeQstep, OpMTSPstep 0 2, OpPconstraints]
          @ [OpBiasKick, OpThermostat, OpPconstraints])"
    using ex_mts_ops by simp
  have p: "0 < mtsintegfactors (ex_ens False [] [1]) ! 0" by (simp add: ex_ens_def)
  from pconstraints_after_kicks[of "ex_ens False [] [1]" 1, THEN conjunct2, THEN conjunct2,
      THEN conjunct2, THEN conjunct2, rule_format, OF conjI[OF h p]]
  obtain pre where pre: "[OpThermostat, OpPconstraints, OpBiasKick,
          OpMTSPstep 0 2, OpPconstraints, OpMTSQcstep 1, OpFreeQstep, OpMTSPstep 0 2, OpPconstraints]
          @ [OpBiasKick, OpThermostat, OpPconstraints] = pre @ [OpBiasKick, OpThermostat, OpPconstraints]"
      "constrained pre"
    by blast
  then have "constrained [OpThermostat, OpPconstraints, OpBiasKick,
          OpMTSPstep 0 2, OpPconstraints, OpMTSQcstep 1, OpFreeQstep, OpMTSPstep 0 2, OpPconstraints]"
    by simp
  then show ?thesis
    using h p pconstraints_after_kicks[of "ex_ens False [] [1]" 1] by blast
qed


text \<open>
  The steps of the constant-pressure and the constant-stress ensemble make the same
  calls in the same order; they differ in what \<^verbatim>\<open>bind\<close> pipes into the barostat.
\<close>

lemma nst_step_calls_as_npt: "NST_step_ops = NPT_step_ops"
  by (simp add: NST_step_ops_def NPT_step_ops_def)

section \<open>The driver: proofs\<close>






section \<open>Multiple time steps with unit factors: proofs\<close>










lemma kicks_snoc: "kicks hh (fs @ [f]) pp = kicked hh f (kicks hh fs pp)"
  by (simp add: kicks_def)



































lemma ex_pcons_eval:
  "NVE_pconstraints (ex_ens True [0] facs)
     (ex_sim\<lparr>beads_q := qq, beads_p := [[a, b, 0, x, y, 0]], eens := e\<rparr>)
   = Inr (ex_sim\<lparr>beads_q := qq,
            beads_p := [[0, 0, 0, x - (a + x) / 2, y - (b + y) / 2, 0]],
            eens := e + ((a + x) * (a + x) + (b + y) * (b + y)) / 4
                    + 0.5 * ((a - (a + x) / 2) * (a - (a + x) / 2))
                    + 0.5 * ((b - (b + y) / 2) * (b - (b + y) / 2))\<rparr>)"
  by (simp add: NVE_pconstraints_def ebind_def com_stage_def fix_stage_def fix_row_def
      ex_ens_def ex_sim_def natoms_def nbeads_def beads_M_def stride_sum_def stride_sub_def
      py_index_def dot_over_def Let_def upt3 upt_rec)





end
